theory Spec2Isabelle
  imports Main
begin

section \<open>Data model of pkg/webhook/webhook.go\<close>

text \<open>
  Strings are Go strings: sequences of bytes, here \<^typ>\<open>string\<close>. The Kubernetes
  objects keep the fields the webhook reads. A Go slice that the code compares with
  \<^verbatim>\<open>nil\<close> is an \<^typ>\<open>'a option\<close> (\<open>None\<close> is \<^verbatim>\<open>nil\<close>); a slice
  that is only measured with \<^verbatim>\<open>len\<close> or ranged over is a list. A Go map that may
  be \<^verbatim>\<open>nil\<close> is an optional partial function. Log output is not modelled.
\<close>

record EnvVar =
  envName :: string
  envValue :: string

record VolumeMount =
  vmName :: string
  vmMountPath :: string

record Volume =
  volName :: string

record Container =
  cName :: string
  cImage :: string
  Env :: "EnvVar list option"
  VolumeMounts :: "VolumeMount list"

record ObjectMeta =
  Name :: string
  Namespace :: string
  Annotations :: "(string \<rightharpoonup> string) option"

record PodSpec =
  InitContainers :: "Container list"
  Containers :: "Container list"
  Volumes :: "Volume list"

record Pod =
  Meta :: ObjectMeta
  Spec :: PodSpec

text \<open>
  \<^verbatim>\<open>Config\<close> with its embedded \<^verbatim>\<open>ExistingContainerConfig\<close>, and
  \<^verbatim>\<open>MultiConfig\<close>, a Go map from profile names to configurations.
\<close>

record Config =
  cfgInitContainers :: "Container list"
  cfgContainers :: "Container list"
  cfgVolumes :: "Volume list"
  cfgEnvVars :: "EnvVar list"
  cfgVolumeMounts :: "VolumeMount list"

type_synonym MultiConfig = "string \<rightharpoonup> Config"

text \<open>
  \<^verbatim>\<open>patchOperation.Value\<close> has type \<^verbatim>\<open>interface{}\<close>; the datatype lists the
  dynamic types the code stores in it.
\<close>

datatype patchValue =
    ContainerV Container
  | ContainerListV "Container list"
  | VolumeV Volume
  | VolumeListV "Volume list"
  | EnvVarV EnvVar
  | EnvVarListV "EnvVar list"
  | VolumeMountV VolumeMount
  | StringMapV "(string \<times> string) list"
  | StringV string

record patchOperation =
  Op :: string
  Path :: string
  Value :: patchValue

definition admissionWebhookAnnotationInjectKey :: string where
  "admissionWebhookAnnotationInjectKey = ''simple-sidecar.centml.ai/inject''"

definition admissionWebhookAnnotationStatusKey :: string where
  "admissionWebhookAnnotationStatusKey = ''simple-sidecar.cemtml.ai/status''"

subsection \<open>What the program takes from its libraries\<close>

text \<open>
  The functions and constants of the Go standard library and of the Kubernetes
  packages are parameters of the model: the Unicode branch of
  \<^verbatim>\<open>strings.ToLower\<close>, the YAML and JSON encoders and decoder (a string on the
  left is the error text), and the two namespace constants of \<^verbatim>\<open>metav1\<close>.
\<close>

record library =
  unicodeToLower :: "string \<Rightarrow> string"
  yamlMarshal :: "Config \<Rightarrow> string + string"
  jsonMarshal :: "patchOperation list \<Rightarrow> string + string"
  jsonUnmarshal :: "string \<Rightarrow> string + Pod"
  NamespaceSystem :: string
  NamespacePublic :: string

definition ignoredNamespaces :: "library \<Rightarrow> string list" where
  "ignoredNamespaces L = [NamespaceSystem L, NamespacePublic L]"

text \<open>
  \<^verbatim>\<open>strings.ToLower\<close>: a string of bytes below \<^verbatim>\<open>utf8.RuneSelf\<close> (128) has
  each of \<^verbatim>\<open>'A'..'Z'\<close> moved by \<^verbatim>\<open>'a' - 'A'\<close>; any other string goes through
  the Unicode tables.
\<close>

definition isASCII :: "char \<Rightarrow> bool" where
  "isASCII c = ((of_char c :: nat) < 128)"

definition lowerByte :: "char \<Rightarrow> char" where
  "lowerByte c =
     (let n = (of_char c :: nat) in if 65 \<le> n \<and> n \<le> 90 then char_of (n + 32) else c)"

definition ToLower :: "library \<Rightarrow> string \<Rightarrow> string" where
  "ToLower L s = (if list_all isASCII s then map lowerByte s else unicodeToLower L s)"

text \<open>Indexing a Go map of strings: a missing key reads as the empty string.\<close>

definition index :: "(string \<rightharpoonup> string) \<Rightarrow> string \<Rightarrow> string" where
  "index m k = (case m k of None \<Rightarrow> '''' | Some v \<Rightarrow> v)"

section \<open>The mutation policy\<close>

text \<open>The loop of \<^verbatim>\<open>mutationRequired\<close> over the ignored namespaces.\<close>

fun inIgnoredList :: "string list \<Rightarrow> string \<Rightarrow> bool" where
  "inIgnoredList [] ns = False"
| "inIgnoredList (namespace # rest) ns = (if ns = namespace then True else inIgnoredList rest ns)"

definition mutationRequired :: "library \<Rightarrow> string list \<Rightarrow> ObjectMeta \<Rightarrow> bool \<times> string" where
  "mutationRequired L ignoredList metadata =
     (if inIgnoredList ignoredList (Namespace metadata) then (False, '''')
      else
        let annotations = (case Annotations metadata of None \<Rightarrow> Map.empty | Some m \<Rightarrow> m);
            status = index annotations admissionWebhookAnnotationStatusKey
        in if ToLower L status = ''injected'' then (False, '''')
           else (case annotations admissionWebhookAnnotationInjectKey of
                   Some val \<Rightarrow> (True, val)
                 | None \<Rightarrow> (False, '''')))"

section \<open>The patch builder\<close>

text \<open>\<^verbatim>\<open>fmt.Sprintf("%d", i)\<close> for a slice index, which is never negative.\<close>

fun formatDecimal :: "nat \<Rightarrow> string" where
  "formatDecimal n =
     (if n < 10 then [char_of (48 + n)]
      else formatDecimal (n div 10) @ [char_of (48 + n mod 10)])"

declare formatDecimal.simps [simp del]

text \<open>
  Each loop of the source is a recursive function over the slice it ranges over; the
  variables the loop body assigns (\<^verbatim>\<open>patch\<close>, \<^verbatim>\<open>first\<close>, \<^verbatim>\<open>target\<close>) are
  arguments.
\<close>

fun addContainerLoop ::
  "bool \<Rightarrow> patchOperation list \<Rightarrow> Container list \<Rightarrow> string \<Rightarrow> patchOperation list" where
  "addContainerLoop first patch [] basePath = patch"
| "addContainerLoop first patch (add # rest) basePath =
     (if first
      then addContainerLoop False
             (patch @ [\<lparr>Op = ''add'', Path = basePath, Value = ContainerListV [add]\<rparr>])
             rest basePath
      else addContainerLoop first
             (patch @ [\<lparr>Op = ''add'', Path = basePath @ ''/-'', Value = ContainerV add\<rparr>])
             rest basePath)"

definition addContainer ::
  "Container list \<Rightarrow> Container list \<Rightarrow> string \<Rightarrow> patchOperation list" where
  "addContainer target added basePath =
     addContainerLoop (length target = 0) [] added basePath"

fun addVolumeLoop ::
  "bool \<Rightarrow> patchOperation list \<Rightarrow> Volume list \<Rightarrow> string \<Rightarrow> patchOperation list" where
  "addVolumeLoop first patch [] basePath = patch"
| "addVolumeLoop first patch (add # rest) basePath =
     (if first
      then addVolumeLoop False
             (patch @ [\<lparr>Op = ''add'', Path = basePath, Value = VolumeListV [add]\<rparr>])
             rest basePath
      else addVolumeLoop first
             (patch @ [\<lparr>Op = ''add'', Path = basePath @ ''/-'', Value = VolumeV add\<rparr>])
             rest basePath)"

definition addVolume ::
  "Volume list \<Rightarrow> Volume list \<Rightarrow> string \<Rightarrow> patchOperation list" where
  "addVolume target added basePath = addVolumeLoop (length target = 0) [] added basePath"

text \<open>
  \<^verbatim>\<open>updateAnnotation\<close> ranges over a Go map, whose iteration order is not fixed:
  \<open>added\<close> is the list of its entries in the order of one iteration. The body
  assigns an empty map to \<open>target\<close> whenever it takes the first branch.
\<close>

fun updateAnnotationLoop ::
  "(string \<rightharpoonup> string) option \<Rightarrow> patchOperation list \<Rightarrow> (string \<times> string) list
     \<Rightarrow> patchOperation list" where
  "updateAnnotationLoop target patch [] = patch"
| "updateAnnotationLoop target patch ((key, val) # rest) =
     (if (case target of None \<Rightarrow> True | Some m \<Rightarrow> index m key = [])
      then updateAnnotationLoop (Some Map.empty)
             (patch @ [\<lparr>Op = ''add'', Path = ''/metadata/annotations'',
                        Value = StringMapV [(key, val)]\<rparr>])
             rest
      else updateAnnotationLoop target
             (patch @ [\<lparr>Op = ''replace'', Path = ''/metadata/annotations/'' @ key,
                        Value = StringV val\<rparr>])
             rest)"

definition updateAnnotation ::
  "(string \<rightharpoonup> string) option \<Rightarrow> (string \<times> string) list \<Rightarrow> patchOperation list" where
  "updateAnnotation target added = updateAnnotationLoop target [] added"

fun addVolumeMountsInner ::
  "nat \<Rightarrow> patchOperation list \<Rightarrow> VolumeMount list \<Rightarrow> patchOperation list" where
  "addVolumeMountsInner i patch [] = patch"
| "addVolumeMountsInner i patch (vm # rest) =
     addVolumeMountsInner i
       (patch @ [\<lparr>Op = ''add'',
                  Path = ''/spec/containers/'' @ formatDecimal i @ ''/volumeMounts/-'',
                  Value = VolumeMountV vm\<rparr>])
       rest"

fun addVolumeMountsOuter ::
  "nat \<Rightarrow> patchOperation list \<Rightarrow> Container list \<Rightarrow> VolumeMount list \<Rightarrow> patchOperation list" where
  "addVolumeMountsOuter i patch [] vms = patch"
| "addVolumeMountsOuter i patch (c # rest) vms =
     addVolumeMountsOuter (Suc i) (addVolumeMountsInner i patch vms) rest vms"

definition addVolumeMounts :: "Pod \<Rightarrow> VolumeMount list \<Rightarrow> patchOperation list" where
  "addVolumeMounts pod vms = addVolumeMountsOuter 0 [] (Containers (Spec pod)) vms"

fun addEnvVarsInner ::
  "nat \<Rightarrow> patchOperation list \<Rightarrow> EnvVar list \<Rightarrow> patchOperation list" where
  "addEnvVarsInner i patch [] = patch"
| "addEnvVarsInner i patch (envVar # rest) =
     addEnvVarsInner i
       (patch @ [\<lparr>Op = ''add'',
                  Path = ''/spec/containers/'' @ formatDecimal i @ ''/env/-'',
                  Value = EnvVarV envVar\<rparr>])
       rest"

fun addEnvVarsOuter ::
  "nat \<Rightarrow> patchOperation list \<Rightarrow> Container list \<Rightarrow> EnvVar list \<Rightarrow> patchOperation list" where
  "addEnvVarsOuter i patch [] envVars = patch"
| "addEnvVarsOuter i patch (c # rest) envVars =
     (let patch1 =
        (if Env c = None
         then patch @ [\<lparr>Op = ''add'',
                         Path = ''/spec/containers/'' @ formatDecimal i @ ''/env'',
                         Value = EnvVarListV []\<rparr>]
         else patch)
      in addEnvVarsOuter (Suc i) (addEnvVarsInner i patch1 envVars) rest envVars)"

definition addEnvVars :: "Pod \<Rightarrow> EnvVar list \<Rightarrow> patchOperation list" where
  "addEnvVars pod envVars =
     (if length envVars = 0 then []
      else addEnvVarsOuter 0 [] (Containers (Spec pod)) envVars)"

text \<open>
  The slice \<^verbatim>\<open>patch\<close> that \<^verbatim>\<open>createPatch\<close> builds before it encodes it, and
  \<^verbatim>\<open>createPatch\<close> itself, which fails when the YAML encoder (called for the log
  line) or the JSON encoder fails.
\<close>

definition createPatchOps ::
  "Pod \<Rightarrow> Config \<Rightarrow> (string \<times> string) list \<Rightarrow> patchOperation list" where
  "createPatchOps pod sidecarConfig annotations =
     (let patch = [];
          patch = patch @ addVolumeMounts pod (cfgVolumeMounts sidecarConfig);
          patch = patch @ addEnvVars pod (cfgEnvVars sidecarConfig);
          patch = patch @ addContainer (InitContainers (Spec pod))
                            (cfgInitContainers sidecarConfig) ''/spec/initContainers'';
          patch = patch @ addContainer (Containers (Spec pod))
                            (cfgContainers sidecarConfig) ''/spec/containers'';
          patch = patch @ addVolume (Volumes (Spec pod))
                            (cfgVolumes sidecarConfig) ''/spec/volumes'';
          patch = patch @ updateAnnotation (Annotations (Meta pod)) annotations
      in patch)"

definition createPatch ::
  "library \<Rightarrow> Pod \<Rightarrow> Config \<Rightarrow> (string \<times> string) list \<Rightarrow> string + string" where
  "createPatch L pod sidecarConfig annotations =
     (case yamlMarshal L sidecarConfig of
        Inl err \<Rightarrow> Inl err
      | Inr cbytes \<Rightarrow> jsonMarshal L (createPatchOps pod sidecarConfig annotations))"

section \<open>The admission decision\<close>

text \<open>
  The fields of \<^verbatim>\<open>AdmissionResponse\<close> that \<^verbatim>\<open>mutate\<close> sets; \<open>Result\<close> is
  the message of the status. \<^verbatim>\<open>ar.Request\<close> is a pointer: \<^verbatim>\<open>mutate\<close>
  dereferences it without a check, so a review without a request is a panic.
\<close>

record AdmissionResponse =
  Allowed :: bool
  Patch :: "string option"
  PatchType :: "string option"
  Result :: "string option"

record AdmissionRequest =
  Raw :: string

record AdmissionReview =
  Request :: "AdmissionRequest option"

datatype panic = NilPointerDereference

text \<open>The constant \<^verbatim>\<open>admissionv1.PatchTypeJSONPatch\<close>.\<close>

definition PatchTypeJSONPatch :: string where
  "PatchTypeJSONPatch = ''JSONPatch''"

text \<open>The body of \<^verbatim>\<open>mutate\<close> from the policy check on, for a decoded pod.\<close>

definition mutatePod :: "library \<Rightarrow> MultiConfig \<Rightarrow> Pod \<Rightarrow> AdmissionResponse" where
  "mutatePod L sidecarConfigs pod =
     (case mutationRequired L (ignoredNamespaces L) (Meta pod) of (required, mut) \<Rightarrow>
        if \<not> required
        then \<lparr>Allowed = True, Patch = None, PatchType = None, Result = None\<rparr>
        else (case sidecarConfigs mut of
                None \<Rightarrow> \<lparr>Allowed = True, Patch = None, PatchType = None, Result = None\<rparr>
              | Some config \<Rightarrow>
                  (let annotations = [(admissionWebhookAnnotationStatusKey, ''injected'')]
                   in case createPatch L pod config annotations of
                        Inl err \<Rightarrow>
                          \<lparr>Allowed = False, Patch = None, PatchType = None, Result = Some err\<rparr>
                      | Inr patchBytes \<Rightarrow>
                          \<lparr>Allowed = True, Patch = Some patchBytes,
                           PatchType = Some PatchTypeJSONPatch, Result = None\<rparr>)))"

definition mutate ::
  "library \<Rightarrow> MultiConfig \<Rightarrow> AdmissionReview \<Rightarrow> panic + AdmissionResponse" where
  "mutate L sidecarConfigs ar =
     (case Request ar of
        None \<Rightarrow> Inl NilPointerDereference
      | Some req \<Rightarrow>
          (case jsonUnmarshal L (Raw req) of
             Inl err \<Rightarrow>
               Inr \<lparr>Allowed = False, Patch = None, PatchType = None, Result = Some err\<rparr>
           | Inr pod \<Rightarrow> Inr (mutatePod L sidecarConfigs pod)))"

text \<open>
  The response that admits the pod unchanged.
\<close>

definition Allow :: AdmissionResponse where
  "Allow = \<lparr>Allowed = True, Patch = None, PatchType = None, Result = None\<rparr>"

text \<open>
  The test \<^verbatim>\<open>target == nil || target[key] == ""\<close> of \<^verbatim>\<open>updateAnnotation\<close>, as
  a predicate of its own: the mapping is nil, has no entry for the key, or maps the key to
  the empty string.
\<close>

definition noValueFor :: "(string \<rightharpoonup> string) option \<Rightarrow> string \<Rightarrow> bool" where
  "noValueFor target key = (case target of None \<Rightarrow> True | Some m \<Rightarrow> index m key = [])"

section \<open>JSON Patch on the annotations of a pod\<close>

text \<open>
  \<^verbatim>\<open>mutate\<close> marks its patch as \<^verbatim>\<open>PatchTypeJSONPatch\<close>; the API server that
  receives it applies it by RFC 6902, reading each path as a JSON Pointer (RFC 6901): the
  path is cut at every \<^verbatim>\<open>/\<close> into reference tokens, and in a token
  \<^verbatim>\<open>~1\<close> stands for \<^verbatim>\<open>/\<close> and \<^verbatim>\<open>~0\<close> for \<^verbatim>\<open>~\<close>. This part is
  not code of the webhook; it is the reading of its output by the standard the webhook
  names.
\<close>

fun splitTokens :: "string \<Rightarrow> string \<Rightarrow> string list" where
  "splitTokens cur [] = [cur]"
| "splitTokens cur (c # cs) =
     (if c = CHR ''/'' then cur # splitTokens [] cs else splitTokens (cur @ [c]) cs)"

fun unescapeToken :: "string \<Rightarrow> string" where
  "unescapeToken [] = []"
| "unescapeToken [c] = [c]"
| "unescapeToken (c # d # cs) =
     (if c = CHR ''~'' \<and> d = CHR ''1'' then CHR ''/'' # unescapeToken cs
      else if c = CHR ''~'' \<and> d = CHR ''0'' then CHR ''~'' # unescapeToken cs
      else c # unescapeToken (d # cs))"

definition pointerTokens :: "string \<Rightarrow> string list option" where
  "pointerTokens p =
     (case p of
        [] \<Rightarrow> Some []
      | c # cs \<Rightarrow> if c = CHR ''/'' then Some (map unescapeToken (splitTokens [] cs)) else None)"

text \<open>
  The effect of one operation on \<^verbatim>\<open>metadata.annotations\<close>, an object whose members are
  strings; \<open>None\<close> is a rejected patch. An operation under \<^verbatim>\<open>/spec\<close> leaves the
  annotations as they are. At \<^verbatim>\<open>/metadata/annotations\<close> an add sets the whole object.
  At \<^verbatim>\<open>/metadata/annotations/k\<close> the object must exist, and a replace needs the member
  \<open>k\<close> to exist. A longer path would address a member of a string, which does not
  exist.
\<close>

definition applyToAnnotations ::
  "patchOperation \<Rightarrow> (string \<rightharpoonup> string) option \<Rightarrow> (string \<rightharpoonup> string) option option" where
  "applyToAnnotations op anns =
     (case pointerTokens (Path op) of
        None \<Rightarrow> None
      | Some tokens \<Rightarrow>
          if tokens \<noteq> [] \<and> hd tokens = ''spec'' then Some anns
          else if tokens = [''metadata'', ''annotations''] then
            (case Value op of
               StringMapV kvs \<Rightarrow>
                 if Op op = ''add'' \<or> (Op op = ''replace'' \<and> anns \<noteq> None)
                 then Some (Some (map_of kvs)) else None
             | _ \<Rightarrow> None)
          else if length tokens = 3 \<and> take 2 tokens = [''metadata'', ''annotations''] then
            (case (anns, Value op) of
               (Some m, StringV v) \<Rightarrow>
                 if Op op = ''add'' \<or> (Op op = ''replace'' \<and> m (tokens ! 2) \<noteq> None)
                 then Some (Some (m(tokens ! 2 \<mapsto> v))) else None
             | _ \<Rightarrow> None)
          else None)"

fun applyPatch ::
  "patchOperation list \<Rightarrow> (string \<rightharpoonup> string) option \<Rightarrow> (string \<rightharpoonup> string) option option" where
  "applyPatch [] anns = Some anns"
| "applyPatch (op # ops) anns =
     (case applyToAnnotations op anns of None \<Rightarrow> None | Some anns' \<Rightarrow> applyPatch ops anns')"

section \<open>Concrete inputs\<close>

text \<open>
  Pods, profiles and a library instance on which the theorems below are evaluated. The
  library instance decodes every request body to the given pod and takes the namespace
  constants of \<^verbatim>\<open>metav1\<close>.
\<close>

definition exampleContainer :: Container where
  "exampleContainer = \<lparr>cName = ''app'', cImage = ''nginx'', Env = None, VolumeMounts = []\<rparr>"

definition sidecarContainer :: Container where
  "sidecarContainer =
     \<lparr>cName = ''sidecar'', cImage = ''busybox'', Env = None, VolumeMounts = []\<rparr>"

definition loggerContainer :: Container where
  "loggerContainer =
     \<lparr>cName = ''logger'', cImage = ''fluentd'', Env = None, VolumeMounts = []\<rparr>"

definition examplePod ::
  "string \<Rightarrow> (string \<rightharpoonup> string) option \<Rightarrow> Container list \<Rightarrow> Pod" where
  "examplePod ns anns cs =
     \<lparr>Meta = \<lparr>Name = ''my-pod'', Namespace = ns, Annotations = anns\<rparr>,
      Spec = \<lparr>InitContainers = [], Containers = cs, Volumes = []\<rparr>\<rparr>"

definition exampleConfig :: "Container list \<Rightarrow> Config" where
  "exampleConfig cs =
     \<lparr>cfgInitContainers = [], cfgContainers = cs, cfgVolumes = [], cfgEnvVars = [],
      cfgVolumeMounts = []\<rparr>"

definition exampleLibrary :: "Pod \<Rightarrow> library" where
  "exampleLibrary pod =
     \<lparr>unicodeToLower = (\<lambda>s. s),
      yamlMarshal = (\<lambda>c. Inr ''''),
      jsonMarshal = (\<lambda>p. Inr ''[]''),
      jsonUnmarshal = (\<lambda>raw. Inr pod),
      NamespaceSystem = ''kube-system'',
      NamespacePublic = ''kube-public''\<rparr>"

definition exampleReview :: AdmissionReview where
  "exampleReview = \<lparr>Request = Some \<lparr>Raw = ''{}''\<rparr>\<rparr>"

definition injectedPod :: Pod where
  "injectedPod = examplePod ''default''
     (Some [admissionWebhookAnnotationInjectKey \<mapsto> ''web'',
            admissionWebhookAnnotationStatusKey \<mapsto> ''Injected'']) [exampleContainer]"

definition systemPod :: Pod where
  "systemPod = examplePod ''kube-system''
     (Some [admissionWebhookAnnotationInjectKey \<mapsto> ''web'']) [exampleContainer]"

definition requestPod :: "string \<Rightarrow> Pod" where
  "requestPod profile = examplePod ''default''
     (Some [admissionWebhookAnnotationInjectKey \<mapsto> profile]) [exampleContainer]"

definition otherPod :: Pod where
  "otherPod =
     \<lparr>Meta = \<lparr>Name = ''other-pod'', Namespace = ''default'', Annotations = None\<rparr>,
      Spec = \<lparr>InitContainers = [sidecarContainer],
              Containers = [exampleContainer, loggerContainer],
              Volumes = [\<lparr>volName = ''data''\<rparr>]\<rparr>\<rparr>"

definition emptyPod :: Pod where
  "emptyPod = examplePod ''default''
     (Some [admissionWebhookAnnotationInjectKey \<mapsto> ''web'']) []"

definition stalePod :: Pod where
  "stalePod = examplePod ''default''
     (Some [admissionWebhookAnnotationInjectKey \<mapsto> ''web'',
            admissionWebhookAnnotationStatusKey \<mapsto> ''pending'']) [exampleContainer]"

definition richPod :: Pod where
  "richPod =
     \<lparr>Meta = \<lparr>Name = ''rich-pod'', Namespace = ''default'',
              Annotations = Some [admissionWebhookAnnotationInjectKey \<mapsto> ''web'']\<rparr>,
      Spec = \<lparr>InitContainers = [],
              Containers = [exampleContainer, loggerContainer\<lparr>Env := Some []\<rparr>],
              Volumes = [\<lparr>volName = ''data''\<rparr>]\<rparr>\<rparr>"

definition richConfig :: Config where
  "richConfig =
     \<lparr>cfgInitContainers = [loggerContainer],
      cfgContainers = [sidecarContainer],
      cfgVolumes = [\<lparr>volName = ''shared''\<rparr>, \<lparr>volName = ''cache''\<rparr>],
      cfgEnvVars = [\<lparr>envName = ''MODE'', envValue = ''on''\<rparr>],
      cfgVolumeMounts = [\<lparr>vmName = ''shared'', vmMountPath = ''/mnt''\<rparr>]\<rparr>"

section \<open>Properties of the mutation policy\<close>

lemma inIgnoredList_iff: "inIgnoredList xs ns = (ns \<in> set xs)"
  by (induction xs) auto

lemma lowerByte_ascii: "isASCII (lowerByte c) \<Longrightarrow> isASCII c"
  by (auto simp: lowerByte_def isASCII_def Let_def split: if_splits)

lemma map_lowerByte_ascii: "list_all isASCII (map lowerByte s) \<Longrightarrow> list_all isASCII s"
  by (induction s) (auto dest: lowerByte_ascii)

lemma injected_ascii: "list_all isASCII ''injected''"
  by (simp add: isASCII_def)

text \<open>
  A string that equals \<open>injected\<close> up to the case of its ASCII letters has no byte
  above 127, so \<^verbatim>\<open>strings.ToLower\<close> stays on its ASCII branch.
\<close>

lemma ToLower_fold: "map lowerByte s = ''injected'' \<Longrightarrow> ToLower L s = ''injected''"
  using map_lowerByte_ascii[of s] injected_ascii by (simp add: ToLower_def)

lemma mutationRequired_ignored:
  "Namespace metadata \<in> set ignoredList \<Longrightarrow>
   mutationRequired L ignoredList metadata = (False, [])"
  by (simp add: mutationRequired_def inIgnoredList_iff)

lemma mutationRequired_injected:
  assumes "Annotations metadata = Some m"
    and "m admissionWebhookAnnotationStatusKey = Some status"
    and "ToLower L status = ''injected''"
  shows "mutationRequired L ignoredList metadata = (False, [])"
  using assms by (simp add: mutationRequired_def index_def)

lemma mutatePod_not_required:
  "mutationRequired L (ignoredNamespaces L) (Meta pod) = (False, mut) \<Longrightarrow>
   mutatePod L sidecarConfigs pod = Allow"
  by (simp add: mutatePod_def Allow_def)

lemma mutate_decoded:
  "Request ar = Some req \<Longrightarrow> jsonUnmarshal L (Raw req) = Inr pod \<Longrightarrow>
   mutate L sidecarConfigs ar = Inr (mutatePod L sidecarConfigs pod)"
  by (simp add: mutate_def)

lemma exampleReview_request: "Request exampleReview = Some \<lparr>Raw = ''{}''\<rparr>"
  by (simp add: exampleReview_def)

lemma exampleLibrary_decodes:
  "jsonUnmarshal (exampleLibrary pod) (Raw \<lparr>Raw = ''{}''\<rparr>) = Inr pod"
  by (simp add: exampleLibrary_def)

text \<open>
  C2. A pod whose status annotation equals \<open>injected\<close> up to letter case is not
  mutated: \<^verbatim>\<open>mutationRequired\<close> answers \<open>(false, "")\<close> for every list of ignored
  namespaces, and \<^verbatim>\<open>mutate\<close> admits the pod without a patch, whatever the other
  annotations (the inject request among them) and the registry are.
\<close>

theorem injected_status_allows:
  assumes "Request ar = Some req" and "jsonUnmarshal L (Raw req) = Inr pod"
    and "Annotations (Meta pod) = Some m"
    and "m admissionWebhookAnnotationStatusKey = Some status"
    and "map lowerByte status = ''injected''"
  shows "mutationRequired L ignoredList (Meta pod) = (False, []) \<and>
         mutate L sidecarConfigs ar = Inr Allow"
proof -
  have low: "ToLower L status = ''injected''"
    using assms(5) by (rule ToLower_fold)
  have req: "mutationRequired L il (Meta pod) = (False, [])" for il
    using assms(3,4) low by (rule mutationRequired_injected)
  from req have "mutatePod L sidecarConfigs pod = Allow"
    by (rule mutatePod_not_required)
  with assms(1,2) req show ?thesis
    by (simp add: mutate_decoded)
qed

theorem injected_status_allows_witness:
  "mutationRequired (exampleLibrary injectedPod)
     (ignoredNamespaces (exampleLibrary injectedPod)) (Meta injectedPod) = (False, []) \<and>
   mutate (exampleLibrary injectedPod) [''web'' \<mapsto> exampleConfig [sidecarContainer]]
     exampleReview = Inr Allow"
proof -
  have c: "Annotations (Meta injectedPod) =
             Some [admissionWebhookAnnotationInjectKey \<mapsto> ''web'',
                   admissionWebhookAnnotationStatusKey \<mapsto> ''Injected'']"
    by (simp add: injectedPod_def examplePod_def)
  have d: "[admissionWebhookAnnotationInjectKey \<mapsto> ''web'',
            admissionWebhookAnnotationStatusKey \<mapsto> ''Injected'']
             admissionWebhookAnnotationStatusKey = Some ''Injected''"
    by simp
  have e: "map lowerByte ''Injected'' = ''injected''"
    by code_simp
  show ?thesis
    by (rule injected_status_allows [OF exampleReview_request exampleLibrary_decodes c d e])
qed

lemma keys_differ: "admissionWebhookAnnotationStatusKey \<noteq> admissionWebhookAnnotationInjectKey"
  by (simp add: admissionWebhookAnnotationStatusKey_def admissionWebhookAnnotationInjectKey_def)

text \<open>
  C3. A pod whose namespace is one of the ignored namespaces is not mutated, whatever its
  annotations and the registry are: \<^verbatim>\<open>mutationRequired\<close> answers \<open>(false, "")\<close> and
  \<^verbatim>\<open>mutate\<close> admits the pod without a patch.
\<close>

theorem ignored_namespace_allows:
  assumes "Request ar = Some req" and "jsonUnmarshal L (Raw req) = Inr pod"
    and "Namespace (Meta pod) \<in> set (ignoredNamespaces L)"
  shows "mutationRequired L (ignoredNamespaces L) (Meta pod) = (False, []) \<and>
         mutate L sidecarConfigs ar = Inr Allow"
proof -
  have req: "mutationRequired L (ignoredNamespaces L) (Meta pod) = (False, [])"
    using assms(3) by (rule mutationRequired_ignored)
  then have "mutatePod L sidecarConfigs pod = Allow"
    by (rule mutatePod_not_required)
  with assms(1,2) req show ?thesis
    by (simp add: mutate_decoded)
qed

theorem ignored_namespace_allows_witness:
  "mutationRequired (exampleLibrary systemPod)
     (ignoredNamespaces (exampleLibrary systemPod)) (Meta systemPod) = (False, []) \<and>
   mutate (exampleLibrary systemPod) [''web'' \<mapsto> exampleConfig [sidecarContainer]]
     exampleReview = Inr Allow"
proof -
  have c: "Namespace (Meta systemPod) \<in> set (ignoredNamespaces (exampleLibrary systemPod))"
    by (simp add: systemPod_def examplePod_def ignoredNamespaces_def exampleLibrary_def)
  show ?thesis
    by (rule ignored_namespace_allows [OF exampleReview_request exampleLibrary_decodes c])
qed

text \<open>
  C5. For a pod outside the ignored namespaces whose status annotation does not lower to
  \<open>injected\<close>: when the inject-request key is present, with any value (the empty string
  too), mutation is required and the profile key is that value; when it is absent,
  mutation is not required. Nil annotations are read as the empty mapping, and the
  function returns a pair on every input.
\<close>

theorem inject_request_decides:
  assumes "Namespace metadata \<notin> set ignoredList"
    and "annotations = (case Annotations metadata of None \<Rightarrow> Map.empty | Some m \<Rightarrow> m)"
    and "ToLower L (index annotations admissionWebhookAnnotationStatusKey) \<noteq> ''injected''"
  shows "mutationRequired L ignoredList metadata =
           (case annotations admissionWebhookAnnotationInjectKey of
              Some val \<Rightarrow> (True, val)
            | None \<Rightarrow> (False, []))"
  using assms by (simp add: mutationRequired_def inIgnoredList_iff Let_def)

theorem inject_request_decides_witness:
  "mutationRequired (exampleLibrary (requestPod [])) [''kube-system'', ''kube-public'']
     (Meta (requestPod [])) = (True, []) \<and>
   mutationRequired (exampleLibrary otherPod) [''kube-system'', ''kube-public'']
     (Meta otherPod) = (False, [])"
proof -
  have a: "Namespace (Meta (requestPod [])) \<notin> set [''kube-system'', ''kube-public'']"
    by (simp add: requestPod_def examplePod_def)
  have b: "[admissionWebhookAnnotationInjectKey \<mapsto> []] =
             (case Annotations (Meta (requestPod [])) of None \<Rightarrow> Map.empty | Some m \<Rightarrow> m)"
    by (simp add: requestPod_def examplePod_def)
  have c: "ToLower (exampleLibrary (requestPod []))
             (index [admissionWebhookAnnotationInjectKey \<mapsto> []]
                admissionWebhookAnnotationStatusKey) \<noteq> ''injected''"
    by (simp add: index_def keys_differ ToLower_def)
  have a': "Namespace (Meta otherPod) \<notin> set [''kube-system'', ''kube-public'']"
    by (simp add: otherPod_def)
  have b': "Map.empty = (case Annotations (Meta otherPod) of None \<Rightarrow> Map.empty | Some m \<Rightarrow> m)"
    by (simp add: otherPod_def)
  have c': "ToLower (exampleLibrary otherPod)
             (index Map.empty admissionWebhookAnnotationStatusKey) \<noteq> ''injected''"
    by (simp add: index_def ToLower_def)
  show ?thesis
    using inject_request_decides [OF a b c] inject_request_decides [OF a' b' c']
    by simp
qed

text \<open>
  C6. When the policy requires a mutation and the registry has no entry for the profile
  key, \<^verbatim>\<open>mutate\<close> admits the pod: allowed, no patch, no status message.
\<close>

theorem unknown_profile_allows:
  assumes "Request ar = Some req" and "jsonUnmarshal L (Raw req) = Inr pod"
    and "mutationRequired L (ignoredNamespaces L) (Meta pod) = (True, mut)"
    and "sidecarConfigs mut = None"
  shows "mutate L sidecarConfigs ar = Inr Allow"
  using assms by (simp add: mutate_def mutatePod_def Allow_def)

theorem unknown_profile_allows_witness:
  "mutate (exampleLibrary (requestPod ''db'')) [''web'' \<mapsto> exampleConfig [sidecarContainer]]
     exampleReview = Inr Allow"
proof -
  have c: "mutationRequired (exampleLibrary (requestPod ''db''))
             (ignoredNamespaces (exampleLibrary (requestPod ''db'')))
             (Meta (requestPod ''db'')) = (True, ''db'')"
    by (simp add: mutationRequired_def requestPod_def examplePod_def ignoredNamespaces_def
          exampleLibrary_def index_def keys_differ ToLower_def)
  have d: "[''web'' \<mapsto> exampleConfig [sidecarContainer]] ''db'' = None"
    by simp
  show ?thesis
    by (rule unknown_profile_allows
        [where sidecarConfigs = "[''web'' \<mapsto> exampleConfig [sidecarContainer]]",
          OF exampleReview_request exampleLibrary_decodes c d])
qed

text \<open>
  C10. \<^verbatim>\<open>mutationRequired\<close> depends on the namespace and the annotations only: two
  pods that agree on both get the same answer, whatever their names, containers, init
  containers and volumes are; and when the answer is "not required" the profile key is
  the empty string.
\<close>

theorem decision_depends_on_namespace_and_annotations:
  assumes "Namespace (Meta pod1) = Namespace (Meta pod2)"
    and "Annotations (Meta pod1) = Annotations (Meta pod2)"
  shows "mutationRequired L ignoredList (Meta pod1) = mutationRequired L ignoredList (Meta pod2) \<and>
         (\<not> fst (mutationRequired L ignoredList (Meta pod1)) \<longrightarrow>
            snd (mutationRequired L ignoredList (Meta pod1)) = [])"
  using assms by (simp add: mutationRequired_def Let_def split: option.splits)

theorem decision_depends_on_namespace_and_annotations_witness:
  "mutationRequired (exampleLibrary otherPod) [''kube-system'', ''kube-public'']
     (Meta (examplePod ''default'' None [])) =
   mutationRequired (exampleLibrary otherPod) [''kube-system'', ''kube-public'']
     (Meta otherPod) \<and>
   \<not> fst (mutationRequired (exampleLibrary otherPod) [''kube-system'', ''kube-public'']
     (Meta (examplePod ''default'' None []))) \<and>
   snd (mutationRequired (exampleLibrary otherPod) [''kube-system'', ''kube-public'']
     (Meta (examplePod ''default'' None []))) = []"
proof -
  have a: "Namespace (Meta (examplePod ''default'' None [])) = Namespace (Meta otherPod)"
    by (simp add: examplePod_def otherPod_def)
  have b: "Annotations (Meta (examplePod ''default'' None [])) = Annotations (Meta otherPod)"
    by (simp add: examplePod_def otherPod_def)
  have c: "\<not> fst (mutationRequired (exampleLibrary otherPod) [''kube-system'', ''kube-public'']
     (Meta (examplePod ''default'' None [])))"
    by (simp add: mutationRequired_def examplePod_def index_def ToLower_def)
  note t = decision_depends_on_namespace_and_annotations [OF a b,
        of "exampleLibrary otherPod" "[''kube-system'', ''kube-public'']"]
  have e: "mutationRequired (exampleLibrary otherPod) [''kube-system'', ''kube-public'']
     (Meta (examplePod ''default'' None [])) =
   mutationRequired (exampleLibrary otherPod) [''kube-system'', ''kube-public'']
     (Meta otherPod)"
    by (rule conjunct1 [OF t])
  have s: "snd (mutationRequired (exampleLibrary otherPod) [''kube-system'', ''kube-public'']
     (Meta (examplePod ''default'' None []))) = []"
    by (rule mp [OF conjunct2 [OF t] c])
  from e c s show ?thesis
    by blast
qed

section \<open>Properties of the patch builder\<close>

text \<open>
  Each loop in closed form: what it appends to \<open>patch\<close>, in the order of the slice
  it ranges over.
\<close>

lemma addContainerLoop_rest:
  "addContainerLoop False patch added basePath =
     patch @ map (\<lambda>a. \<lparr>Op = ''add'', Path = basePath @ ''/-'', Value = ContainerV a\<rparr>) added"
  by (induction added arbitrary: patch) simp_all

lemma addContainer_closed:
  "addContainer target added basePath =
     (if target = [] then
        (case added of [] \<Rightarrow> []
         | c # cs \<Rightarrow> \<lparr>Op = ''add'', Path = basePath, Value = ContainerListV [c]\<rparr> #
             map (\<lambda>a. \<lparr>Op = ''add'', Path = basePath @ ''/-'', Value = ContainerV a\<rparr>) cs)
      else map (\<lambda>a. \<lparr>Op = ''add'', Path = basePath @ ''/-'', Value = ContainerV a\<rparr>) added)"
  by (cases added) (simp_all add: addContainer_def addContainerLoop_rest)

lemma addVolumeLoop_rest:
  "addVolumeLoop False patch added basePath =
     patch @ map (\<lambda>a. \<lparr>Op = ''add'', Path = basePath @ ''/-'', Value = VolumeV a\<rparr>) added"
  by (induction added arbitrary: patch) simp_all

lemma addVolume_closed:
  "addVolume target added basePath =
     (if target = [] then
        (case added of [] \<Rightarrow> []
         | c # cs \<Rightarrow> \<lparr>Op = ''add'', Path = basePath, Value = VolumeListV [c]\<rparr> #
             map (\<lambda>a. \<lparr>Op = ''add'', Path = basePath @ ''/-'', Value = VolumeV a\<rparr>) cs)
      else map (\<lambda>a. \<lparr>Op = ''add'', Path = basePath @ ''/-'', Value = VolumeV a\<rparr>) added)"
  by (cases added) (simp_all add: addVolume_def addVolumeLoop_rest)

lemma addVolumeMountsInner_closed:
  "addVolumeMountsInner i patch vms =
     patch @ map (\<lambda>vm. \<lparr>Op = ''add'',
        Path = ''/spec/containers/'' @ formatDecimal i @ ''/volumeMounts/-'',
        Value = VolumeMountV vm\<rparr>) vms"
  by (induction vms arbitrary: patch) simp_all

lemma addVolumeMountsOuter_closed:
  "addVolumeMountsOuter i patch cs vms =
     patch @ concat (map (\<lambda>j. map (\<lambda>vm. \<lparr>Op = ''add'',
        Path = ''/spec/containers/'' @ formatDecimal j @ ''/volumeMounts/-'',
        Value = VolumeMountV vm\<rparr>) vms) [i..<i + length cs])"
proof (induction cs arbitrary: i patch)
  case Nil
  then show ?case by simp
next
  case (Cons c cs)
  have "[i..<i + length (c # cs)] = i # [Suc i..<Suc i + length cs]"
    using upt_conv_Cons [of i "Suc i + length cs"] by simp
  then show ?case
    by (simp add: Cons.IH addVolumeMountsInner_closed del: upt_Suc)
qed

lemma addEnvVarsInner_closed:
  "addEnvVarsInner i patch evs =
     patch @ map (\<lambda>ev. \<lparr>Op = ''add'',
        Path = ''/spec/containers/'' @ formatDecimal i @ ''/env/-'',
        Value = EnvVarV ev\<rparr>) evs"
  by (induction evs arbitrary: patch) simp_all

lemma addEnvVarsOuter_closed:
  "addEnvVarsOuter i patch cs evs =
     patch @ concat (map (\<lambda>(j, c).
        (if Env c = None
         then [\<lparr>Op = ''add'', Path = ''/spec/containers/'' @ formatDecimal j @ ''/env'',
                Value = EnvVarListV []\<rparr>]
         else []) @
        map (\<lambda>ev. \<lparr>Op = ''add'',
          Path = ''/spec/containers/'' @ formatDecimal j @ ''/env/-'',
          Value = EnvVarV ev\<rparr>) evs) (zip [i..<i + length cs] cs))"
proof (induction cs arbitrary: i patch)
  case Nil
  then show ?case by simp
next
  case (Cons c cs)
  have "[i..<i + length (c # cs)] = i # [Suc i..<Suc i + length cs]"
    using upt_conv_Cons [of i "Suc i + length cs"] by simp
  then show ?case
    by (simp add: Cons.IH addEnvVarsInner_closed Let_def del: upt_Suc)
qed

lemma updateAnnotationLoop_after_add:
  "updateAnnotationLoop (Some Map.empty) patch added =
     patch @ map (\<lambda>(k, v). \<lparr>Op = ''add'', Path = ''/metadata/annotations'',
                              Value = StringMapV [(k, v)]\<rparr>) added"
  by (induction added arbitrary: patch) (auto simp: index_def)

lemma updateAnnotationLoop_length:
  "length (updateAnnotationLoop target patch added) = length patch + length added"
  by (induction target patch added rule: updateAnnotationLoop.induct) simp_all

lemma updateAnnotationLoop_prefix:
  "i < length patch \<Longrightarrow> updateAnnotationLoop target patch added ! i = patch ! i"
  by (induction target patch added rule: updateAnnotationLoop.induct)
     (simp_all add: nth_append)

lemma updateAnnotationLoop_replaces:
  "\<forall>(k, v) \<in> set pre. \<not> noValueFor target k \<Longrightarrow>
   updateAnnotationLoop target patch (pre @ rest) =
     updateAnnotationLoop target
       (patch @ map (\<lambda>(k, v). \<lparr>Op = ''replace'', Path = ''/metadata/annotations/'' @ k,
                                 Value = StringV v\<rparr>) pre) rest"
  by (induction pre arbitrary: patch) (auto simp: noValueFor_def split: option.splits)

text \<open>
  The annotation loop in closed form: a replace for every entry up to the first one for
  which the pod has no value, an add for that entry and for all entries after it.
\<close>

lemma updateAnnotationLoop_closed:
  "updateAnnotationLoop target patch added =
     patch @
     map (\<lambda>(k, v). \<lparr>Op = ''replace'', Path = ''/metadata/annotations/'' @ k,
                       Value = StringV v\<rparr>)
       (takeWhile (\<lambda>(k, v). \<not> noValueFor target k) added) @
     map (\<lambda>(k, v). \<lparr>Op = ''add'', Path = ''/metadata/annotations'',
                       Value = StringMapV [(k, v)]\<rparr>)
       (dropWhile (\<lambda>(k, v). \<not> noValueFor target k) added)"
proof (induction added arbitrary: patch)
  case Nil
  then show ?case by simp
next
  case (Cons entry rest)
  obtain key val where entry: "entry = (key, val)"
    by (cases entry)
  show ?case
  proof (cases "noValueFor target key")
    case True
    then show ?thesis
      by (simp add: entry noValueFor_def updateAnnotationLoop_after_add)
  next
    case False
    then show ?thesis
      by (simp add: entry noValueFor_def Cons.IH)
  qed
qed

lemma addVolumeMounts_closed:
  "addVolumeMounts pod vms =
     concat (map (\<lambda>i. map (\<lambda>vm. \<lparr>Op = ''add'',
        Path = ''/spec/containers/'' @ formatDecimal i @ ''/volumeMounts/-'',
        Value = VolumeMountV vm\<rparr>) vms) [0..<length (Containers (Spec pod))])"
  by (simp add: addVolumeMounts_def addVolumeMountsOuter_closed)

lemma addEnvVars_closed:
  "addEnvVars pod evs =
     (if evs = [] then []
      else concat (map (\<lambda>(i, c).
        (if Env c = None
         then [\<lparr>Op = ''add'', Path = ''/spec/containers/'' @ formatDecimal i @ ''/env'',
                Value = EnvVarListV []\<rparr>]
         else []) @
        map (\<lambda>ev. \<lparr>Op = ''add'',
          Path = ''/spec/containers/'' @ formatDecimal i @ ''/env/-'',
          Value = EnvVarV ev\<rparr>) evs)
        (zip [0..<length (Containers (Spec pod))] (Containers (Spec pod)))))"
  by (simp add: addEnvVars_def addEnvVarsOuter_closed)

text \<open>
  The paths of different steps never coincide: a decimal index holds no \<^verbatim>\<open>/\<close>, so a
  path under \<^verbatim>\<open>/spec/containers/i/\<close> is determined by its index and its suffix.
\<close>

lemma digit_not_slash: "d < 10 \<Longrightarrow> char_of (48 + d :: nat) \<noteq> CHR ''/''"
proof
  assume d: "d < 10" and eq: "char_of (48 + d) = CHR ''/''"
  from eq have "(of_char (char_of (48 + d)) :: nat) = of_char CHR ''/''"
    by simp
  with d show False
    by simp
qed

lemma formatDecimal_no_slash: "CHR ''/'' \<notin> set (formatDecimal n)"
proof (induction n rule: formatDecimal.induct)
  case (1 n)
  show ?case
  proof (cases "n < 10")
    case True
    then show ?thesis
      using digit_not_slash [of n] by (subst formatDecimal.simps) auto
  next
    case False
    have "n mod 10 < 10" by simp
    then have "char_of (48 + n mod 10) \<noteq> CHR ''/''"
      by (rule digit_not_slash)
    with False 1 show ?thesis
      by (subst formatDecimal.simps) auto
  qed
qed

lemma formatDecimal_nonempty: "formatDecimal n \<noteq> []"
  by (subst formatDecimal.simps) simp

lemma slash_split:
  assumes "CHR ''/'' \<notin> set a" and "CHR ''/'' \<notin> set b"
    and "a @ CHR ''/'' # x = b @ CHR ''/'' # y"
  shows "a = b \<and> x = y"
proof -
  have "takeWhile (\<lambda>c. c \<noteq> CHR ''/'') (a @ CHR ''/'' # x) = a"
    using assms(1) by (auto simp: takeWhile_tail)
  moreover have "takeWhile (\<lambda>c. c \<noteq> CHR ''/'') (b @ CHR ''/'' # y) = b"
    using assms(2) by (auto simp: takeWhile_tail)
  ultimately have "a = b" using assms(3) by simp
  with assms(3) show ?thesis by simp
qed

lemma index_path_eq [simp]:
  "(formatDecimal i @ CHR ''/'' # s1 = formatDecimal j @ CHR ''/'' # s2) =
     (formatDecimal i = formatDecimal j \<and> s1 = s2)"
  using slash_split [OF formatDecimal_no_slash formatDecimal_no_slash] by auto

lemma index_path_single [simp]:
  "([c] = formatDecimal j @ d # s) = False" "(formatDecimal j @ d # s = [c]) = False"
  using formatDecimal_nonempty [of j] by (auto simp: Cons_eq_append_conv append_eq_Cons_conv)

lemma createPatchOps_concat:
  "createPatchOps pod cfg annotations =
     addVolumeMounts pod (cfgVolumeMounts cfg) @
     addEnvVars pod (cfgEnvVars cfg) @
     addContainer (InitContainers (Spec pod)) (cfgInitContainers cfg) ''/spec/initContainers'' @
     addContainer (Containers (Spec pod)) (cfgContainers cfg) ''/spec/containers'' @
     addVolume (Volumes (Spec pod)) (cfgVolumes cfg) ''/spec/volumes'' @
     updateAnnotation (Annotations (Meta pod)) annotations"
  by (simp add: createPatchOps_def Let_def)

lemma addVolumeMounts_ops:
  "op \<in> set (addVolumeMounts pod vms) \<Longrightarrow>
   \<exists>i vm. op = \<lparr>Op = ''add'',
      Path = ''/spec/containers/'' @ formatDecimal i @ ''/volumeMounts/-'',
      Value = VolumeMountV vm\<rparr>"
  by (auto simp: addVolumeMounts_def addVolumeMountsOuter_closed)

lemma addEnvVars_ops:
  "op \<in> set (addEnvVars pod evs) \<Longrightarrow>
   (\<exists>i. op = \<lparr>Op = ''add'', Path = ''/spec/containers/'' @ formatDecimal i @ ''/env'',
               Value = EnvVarListV []\<rparr>) \<or>
   (\<exists>i ev. op = \<lparr>Op = ''add'', Path = ''/spec/containers/'' @ formatDecimal i @ ''/env/-'',
               Value = EnvVarV ev\<rparr>)"
  by (auto simp: addEnvVars_def addEnvVarsOuter_closed split: if_splits)

lemma addContainer_ops:
  "op \<in> set (addContainer target added basePath) \<Longrightarrow>
   (\<exists>c. op = \<lparr>Op = ''add'', Path = basePath, Value = ContainerListV [c]\<rparr>) \<or>
   (\<exists>c. op = \<lparr>Op = ''add'', Path = basePath @ ''/-'', Value = ContainerV c\<rparr>)"
  by (auto simp: addContainer_closed split: if_splits list.splits)

lemma addVolume_ops:
  "op \<in> set (addVolume target added basePath) \<Longrightarrow>
   (\<exists>c. op = \<lparr>Op = ''add'', Path = basePath, Value = VolumeListV [c]\<rparr>) \<or>
   (\<exists>c. op = \<lparr>Op = ''add'', Path = basePath @ ''/-'', Value = VolumeV c\<rparr>)"
  by (auto simp: addVolume_closed split: if_splits list.splits)

lemma updateAnnotationLoop_ops:
  "op \<in> set (updateAnnotationLoop target patch added) \<Longrightarrow> op \<in> set patch \<or>
   (\<exists>k v. op = \<lparr>Op = ''add'', Path = ''/metadata/annotations'', Value = StringMapV [(k, v)]\<rparr>) \<or>
   (\<exists>k v. op = \<lparr>Op = ''replace'', Path = ''/metadata/annotations/'' @ k, Value = StringV v\<rparr>)"
proof (induction target patch added rule: updateAnnotationLoop.induct)
  case (1 target patch)
  then show ?case by simp
next
  case (2 target patch key val rest)
  then show ?case
    by (auto split: if_splits)
qed

lemma updateAnnotation_ops:
  "op \<in> set (updateAnnotation target added) \<Longrightarrow>
   (\<exists>k v. op = \<lparr>Op = ''add'', Path = ''/metadata/annotations'', Value = StringMapV [(k, v)]\<rparr>) \<or>
   (\<exists>k v. op = \<lparr>Op = ''replace'', Path = ''/metadata/annotations/'' @ k, Value = StringV v\<rparr>)"
  using updateAnnotationLoop_ops [of op target "[]" added] by (simp add: updateAnnotation_def)

text \<open>
  \<^verbatim>\<open>formatDecimal\<close> writes the decimal numeral of its argument: digits only, with the
  value of the argument, and no leading zero.
\<close>

lemma digit_value: "d < 10 \<Longrightarrow> (of_char (char_of (48 + d :: nat)) :: nat) = 48 + d"
  by simp

lemma formatDecimal_digits:
  "list_all (\<lambda>c. 48 \<le> (of_char c :: nat) \<and> (of_char c :: nat) \<le> 57) (formatDecimal n)"
proof (induction n rule: formatDecimal.induct)
  case (1 n)
  show ?case
  proof (cases "n < 10")
    case True
    then show ?thesis
      by (subst formatDecimal.simps) (simp add: digit_value)
  next
    case False
    have "n mod 10 < 10" by simp
    then have "(of_char (char_of (48 + n mod 10)) :: nat) = 48 + n mod 10"
      by (rule digit_value)
    with False 1 show ?thesis
      by (subst formatDecimal.simps) simp
  qed
qed

lemma formatDecimal_value:
  "foldl (\<lambda>a c. 10 * a + ((of_char c :: nat) - 48)) 0 (formatDecimal n) = n"
proof (induction n rule: formatDecimal.induct)
  case (1 n)
  show ?case
  proof (cases "n < 10")
    case True
    then show ?thesis
      by (subst formatDecimal.simps) (simp add: digit_value)
  next
    case False
    have "n mod 10 < 10" by simp
    then have "(of_char (char_of (48 + n mod 10)) :: nat) = 48 + n mod 10"
      by (rule digit_value)
    with False 1 show ?thesis
      by (subst formatDecimal.simps) simp
  qed
qed

lemma zero_digit: "d < 10 \<Longrightarrow> (char_of (48 + d :: nat) = CHR ''0'') = (d = 0)"
proof
  assume d: "d < 10" and eq: "char_of (48 + d) = CHR ''0''"
  from eq have "(of_char (char_of (48 + d)) :: nat) = of_char CHR ''0''"
    by simp
  with d show "d = 0"
    by simp
next
  assume "d = 0"
  then show "char_of (48 + d) = CHR ''0''"
    by simp code_simp
qed

lemma formatDecimal_leading:
  "(hd (formatDecimal n) = CHR ''0'') = (n = 0)"
proof (induction n rule: formatDecimal.induct)
  case (1 n)
  show ?case
  proof (cases "n < 10")
    case True
    then show ?thesis
      by (subst formatDecimal.simps) (simp add: zero_digit)
  next
    case False
    then have "n div 10 \<noteq> 0" by simp
    with False 1 show ?thesis
      by (subst formatDecimal.simps) (simp add: formatDecimal_nonempty)
  qed
qed

lemma updateAnnotation_closed:
  "updateAnnotation target added =
     map (\<lambda>(k, v). \<lparr>Op = ''replace'', Path = ''/metadata/annotations/'' @ k,
                       Value = StringV v\<rparr>)
       (takeWhile (\<lambda>(k, v). \<not> noValueFor target k) added) @
     map (\<lambda>(k, v). \<lparr>Op = ''add'', Path = ''/metadata/annotations'',
                       Value = StringMapV [(k, v)]\<rparr>)
       (dropWhile (\<lambda>(k, v). \<not> noValueFor target k) added)"
  by (simp add: updateAnnotation_def updateAnnotationLoop_closed)

lemma formatDecimal_0: "formatDecimal 0 = ''0''"
  by code_simp

lemma formatDecimal_1: "formatDecimal (Suc 0) = ''1''"
  by code_simp

text \<open>
  C7. The patch of \<^verbatim>\<open>createPatch\<close> is the concatenation, in this order, of the
  operations for volume mounts, environment variables, init containers, containers,
  volumes and annotations, so the annotation operations come last; \<^verbatim>\<open>createPatch\<close>
  returns the JSON encoding of that list unless the YAML encoding of the profile fails.
  Each step is given in full, in the order of its input. The mount step runs through the
  existing containers by index and, for each, through the mounts of the profile. The
  environment step does the same with the variables, after the guard for a container
  whose \<^verbatim>\<open>env\<close> is nil. The init-container, container and volume steps put the first
  element as a one-element list at the base path when the pod has none, and every other
  element at the base path followed by \<^verbatim>\<open>/-\<close>. The annotation step emits one
  operation per entry, in the order of the iteration. The index in a path is the decimal
  numeral of the position of the container.
\<close>

theorem patch_is_concatenation_of_steps:
  "createPatchOps pod cfg annotations =
     addVolumeMounts pod (cfgVolumeMounts cfg) @
     addEnvVars pod (cfgEnvVars cfg) @
     addContainer (InitContainers (Spec pod)) (cfgInitContainers cfg) ''/spec/initContainers'' @
     addContainer (Containers (Spec pod)) (cfgContainers cfg) ''/spec/containers'' @
     addVolume (Volumes (Spec pod)) (cfgVolumes cfg) ''/spec/volumes'' @
     updateAnnotation (Annotations (Meta pod)) annotations \<and>
   createPatch L pod cfg annotations =
     (case yamlMarshal L cfg of
        Inl err \<Rightarrow> Inl err
      | Inr cbytes \<Rightarrow> jsonMarshal L (createPatchOps pod cfg annotations)) \<and>
   addVolumeMounts pod vms =
     concat (map (\<lambda>i. map (\<lambda>vm. \<lparr>Op = ''add'',
        Path = ''/spec/containers/'' @ formatDecimal i @ ''/volumeMounts/-'',
        Value = VolumeMountV vm\<rparr>) vms)
       [0..<length (Containers (Spec pod))]) \<and>
   addEnvVars pod evs =
     (if evs = [] then []
      else concat (map (\<lambda>(i, c).
        (if Env c = None
         then [\<lparr>Op = ''add'', Path = ''/spec/containers/'' @ formatDecimal i @ ''/env'',
                Value = EnvVarListV []\<rparr>]
         else []) @
        map (\<lambda>ev. \<lparr>Op = ''add'',
          Path = ''/spec/containers/'' @ formatDecimal i @ ''/env/-'',
          Value = EnvVarV ev\<rparr>) evs)
        (zip [0..<length (Containers (Spec pod))] (Containers (Spec pod))))) \<and>
   addContainer target added basePath =
     (if target = [] then
        (case added of
           [] \<Rightarrow> []
         | c # cs \<Rightarrow>
             \<lparr>Op = ''add'', Path = basePath, Value = ContainerListV [c]\<rparr> #
             map (\<lambda>a. \<lparr>Op = ''add'', Path = basePath @ ''/-'', Value = ContainerV a\<rparr>) cs)
      else map (\<lambda>a. \<lparr>Op = ''add'', Path = basePath @ ''/-'', Value = ContainerV a\<rparr>) added) \<and>
   addVolume vtarget vadded basePath =
     (if vtarget = [] then
        (case vadded of
           [] \<Rightarrow> []
         | c # cs \<Rightarrow>
             \<lparr>Op = ''add'', Path = basePath, Value = VolumeListV [c]\<rparr> #
             map (\<lambda>a. \<lparr>Op = ''add'', Path = basePath @ ''/-'', Value = VolumeV a\<rparr>) cs)
      else map (\<lambda>a. \<lparr>Op = ''add'', Path = basePath @ ''/-'', Value = VolumeV a\<rparr>) vadded) \<and>
   updateAnnotation atarget annotations =
     map (\<lambda>(k, v). \<lparr>Op = ''replace'', Path = ''/metadata/annotations/'' @ k,
                       Value = StringV v\<rparr>)
       (takeWhile (\<lambda>(k, v). \<not> noValueFor atarget k) annotations) @
     map (\<lambda>(k, v). \<lparr>Op = ''add'', Path = ''/metadata/annotations'',
                       Value = StringMapV [(k, v)]\<rparr>)
       (dropWhile (\<lambda>(k, v). \<not> noValueFor atarget k) annotations) \<and>
   list_all (\<lambda>c. 48 \<le> (of_char c :: nat) \<and> (of_char c :: nat) \<le> 57) (formatDecimal n) \<and>
   foldl (\<lambda>a c. 10 * a + ((of_char c :: nat) - 48)) 0 (formatDecimal n) = n \<and>
   (hd (formatDecimal n) = CHR ''0'') = (n = 0)"
proof -
  have bytes: "createPatch L pod cfg annotations =
     (case yamlMarshal L cfg of
        Inl err \<Rightarrow> Inl err
      | Inr cbytes \<Rightarrow> jsonMarshal L (createPatchOps pod cfg annotations))"
    by (simp add: createPatch_def)
  show ?thesis
    by (intro conjI createPatchOps_concat bytes addVolumeMounts_closed addEnvVars_closed
        addContainer_closed addVolume_closed updateAnnotation_closed
        formatDecimal_digits formatDecimal_value formatDecimal_leading)
qed

theorem patch_is_concatenation_of_steps_witness:
  "createPatchOps richPod richConfig [(admissionWebhookAnnotationStatusKey, ''injected'')] =
     [\<lparr>Op = ''add'', Path = ''/spec/containers/0/volumeMounts/-'',
       Value = VolumeMountV \<lparr>vmName = ''shared'', vmMountPath = ''/mnt''\<rparr>\<rparr>,
      \<lparr>Op = ''add'', Path = ''/spec/containers/1/volumeMounts/-'',
       Value = VolumeMountV \<lparr>vmName = ''shared'', vmMountPath = ''/mnt''\<rparr>\<rparr>,
      \<lparr>Op = ''add'', Path = ''/spec/containers/0/env'', Value = EnvVarListV []\<rparr>,
      \<lparr>Op = ''add'', Path = ''/spec/containers/0/env/-'',
       Value = EnvVarV \<lparr>envName = ''MODE'', envValue = ''on''\<rparr>\<rparr>,
      \<lparr>Op = ''add'', Path = ''/spec/containers/1/env/-'',
       Value = EnvVarV \<lparr>envName = ''MODE'', envValue = ''on''\<rparr>\<rparr>,
      \<lparr>Op = ''add'', Path = ''/spec/initContainers'', Value = ContainerListV [loggerContainer]\<rparr>,
      \<lparr>Op = ''add'', Path = ''/spec/containers/-'', Value = ContainerV sidecarContainer\<rparr>,
      \<lparr>Op = ''add'', Path = ''/spec/volumes/-'', Value = VolumeV \<lparr>volName = ''shared''\<rparr>\<rparr>,
      \<lparr>Op = ''add'', Path = ''/spec/volumes/-'', Value = VolumeV \<lparr>volName = ''cache''\<rparr>\<rparr>,
      \<lparr>Op = ''add'', Path = ''/metadata/annotations'',
       Value = StringMapV [(admissionWebhookAnnotationStatusKey, ''injected'')]\<rparr>]"
proof -
  note steps = patch_is_concatenation_of_steps
    [of richPod richConfig "[(admissionWebhookAnnotationStatusKey, ''injected'')]"]
  have ops: "createPatchOps richPod richConfig
               [(admissionWebhookAnnotationStatusKey, ''injected'')] =
     addVolumeMounts richPod (cfgVolumeMounts richConfig) @
     addEnvVars richPod (cfgEnvVars richConfig) @
     addContainer (InitContainers (Spec richPod)) (cfgInitContainers richConfig)
       ''/spec/initContainers'' @
     addContainer (Containers (Spec richPod)) (cfgContainers richConfig) ''/spec/containers'' @
     addVolume (Volumes (Spec richPod)) (cfgVolumes richConfig) ''/spec/volumes'' @
     updateAnnotation (Annotations (Meta richPod))
       [(admissionWebhookAnnotationStatusKey, ''injected'')]"
    by (rule conjunct1 [OF steps])
  show ?thesis
    unfolding ops
    by (simp add: richPod_def richConfig_def addVolumeMounts_def addEnvVars_def
        addContainer_def addVolume_def updateAnnotation_def index_def keys_differ
        formatDecimal_0 formatDecimal_1 exampleContainer_def loggerContainer_def)
qed

text \<open>
  C8. For a profile without environment variables the environment step contributes
  nothing, and no operation of the patch has a path \<^verbatim>\<open>/spec/containers/i/env\<close> (the
  empty-array guard) or \<^verbatim>\<open>/spec/containers/i/env/-\<close> (an added variable).
\<close>

theorem empty_envVars_no_env_ops:
  assumes "cfgEnvVars cfg = []"
  shows "addEnvVars pod (cfgEnvVars cfg) = [] \<and>
         (\<forall>op \<in> set (createPatchOps pod cfg annotations). \<forall>i.
            Path op \<noteq> ''/spec/containers/'' @ formatDecimal i @ ''/env'' \<and>
            Path op \<noteq> ''/spec/containers/'' @ formatDecimal i @ ''/env/-'')"
proof
  show none: "addEnvVars pod (cfgEnvVars cfg) = []"
    using assms by (simp add: addEnvVars_def)
  show "\<forall>op \<in> set (createPatchOps pod cfg annotations). \<forall>i.
            Path op \<noteq> ''/spec/containers/'' @ formatDecimal i @ ''/env'' \<and>
            Path op \<noteq> ''/spec/containers/'' @ formatDecimal i @ ''/env/-''"
  proof (intro ballI allI)
    fix op i
    assume "op \<in> set (createPatchOps pod cfg annotations)"
    then consider
        "op \<in> set (addVolumeMounts pod (cfgVolumeMounts cfg))"
      | "op \<in> set (addContainer (InitContainers (Spec pod)) (cfgInitContainers cfg)
                      ''/spec/initContainers'')"
      | "op \<in> set (addContainer (Containers (Spec pod)) (cfgContainers cfg)
                      ''/spec/containers'')"
      | "op \<in> set (addVolume (Volumes (Spec pod)) (cfgVolumes cfg) ''/spec/volumes'')"
      | "op \<in> set (updateAnnotation (Annotations (Meta pod)) annotations)"
      using none by (auto simp: createPatchOps_concat)
    then show "Path op \<noteq> ''/spec/containers/'' @ formatDecimal i @ ''/env'' \<and>
               Path op \<noteq> ''/spec/containers/'' @ formatDecimal i @ ''/env/-''"
    proof cases
      case 1
      then show ?thesis by (auto dest!: addVolumeMounts_ops)
    next
      case 2
      then show ?thesis by (auto dest!: addContainer_ops)
    next
      case 3
      then show ?thesis by (auto dest!: addContainer_ops)
    next
      case 4
      then show ?thesis by (auto dest!: addVolume_ops)
    next
      case 5
      then show ?thesis by (auto dest!: updateAnnotation_ops)
    qed
  qed
qed

theorem empty_envVars_no_env_ops_witness:
  "addEnvVars (requestPod ''web'') (cfgEnvVars (exampleConfig [sidecarContainer])) = [] \<and>
   Path (hd (createPatchOps (requestPod ''web'') (exampleConfig [sidecarContainer])
               [(admissionWebhookAnnotationStatusKey, ''injected'')])) \<noteq>
     ''/spec/containers/'' @ formatDecimal 0 @ ''/env''"
proof -
  have a: "cfgEnvVars (exampleConfig [sidecarContainer]) = []"
    by (simp add: exampleConfig_def)
  have b: "createPatchOps (requestPod ''web'') (exampleConfig [sidecarContainer])
               [(admissionWebhookAnnotationStatusKey, ''injected'')] \<noteq> []"
    by (simp add: createPatchOps_def requestPod_def examplePod_def exampleConfig_def
        addVolumeMounts_def addEnvVars_def addContainer_def addVolume_def updateAnnotation_def)
  from b have c: "hd (createPatchOps (requestPod ''web'') (exampleConfig [sidecarContainer])
               [(admissionWebhookAnnotationStatusKey, ''injected'')]) \<in>
             set (createPatchOps (requestPod ''web'') (exampleConfig [sidecarContainer])
               [(admissionWebhookAnnotationStatusKey, ''injected'')])"
    by (rule hd_in_set)
  show ?thesis
    using empty_envVars_no_env_ops [OF a, of "requestPod ''web''"
        "[(admissionWebhookAnnotationStatusKey, ''injected'')]"] c
    by blast
qed

text \<open>
  C1, as the code has it. The operations of the patch at \<^verbatim>\<open>/spec/containers\<close> and
  \<^verbatim>\<open>/spec/containers/-\<close> are those of the container step. For a pod without containers
  and a profile whose containers are \<open>c\<close> followed by \<open>cs\<close>: one add at
  \<^verbatim>\<open>/spec/containers\<close> whose value is the one-element list of \<open>c\<close>, then one add at
  \<^verbatim>\<open>/spec/containers/-\<close> for each container of \<open>cs\<close>, in the order of the profile. For a
  pod with containers: one add at \<^verbatim>\<open>/spec/containers/-\<close> for each container of the
  profile, in order. The first value is the whole injected list only when the profile
  injects a single container.
\<close>

theorem containers_step_operations:
  "filter (\<lambda>op. Path op = ''/spec/containers'' \<or> Path op = ''/spec/containers/-'')
     (createPatchOps pod cfg annotations) =
   (if Containers (Spec pod) = [] then
      (case cfgContainers cfg of
         [] \<Rightarrow> []
       | c # cs \<Rightarrow>
           \<lparr>Op = ''add'', Path = ''/spec/containers'', Value = ContainerListV [c]\<rparr> #
           map (\<lambda>a. \<lparr>Op = ''add'', Path = ''/spec/containers/-'', Value = ContainerV a\<rparr>) cs)
    else map (\<lambda>a. \<lparr>Op = ''add'', Path = ''/spec/containers/-'', Value = ContainerV a\<rparr>)
           (cfgContainers cfg))"
proof -
  let ?P = "\<lambda>op. Path op = ''/spec/containers'' \<or> Path op = ''/spec/containers/-''"
  have vm: "filter ?P (addVolumeMounts pod (cfgVolumeMounts cfg)) = []"
    by (auto simp: filter_empty_conv dest!: addVolumeMounts_ops)
  have ev: "filter ?P (addEnvVars pod (cfgEnvVars cfg)) = []"
    by (auto simp: filter_empty_conv dest!: addEnvVars_ops)
  have ic: "filter ?P (addContainer (InitContainers (Spec pod)) (cfgInitContainers cfg)
              ''/spec/initContainers'') = []"
    by (auto simp: filter_empty_conv dest!: addContainer_ops)
  have vo: "filter ?P (addVolume (Volumes (Spec pod)) (cfgVolumes cfg) ''/spec/volumes'') = []"
    by (auto simp: filter_empty_conv dest!: addVolume_ops)
  have an: "filter ?P (updateAnnotation (Annotations (Meta pod)) annotations) = []"
    by (auto simp: filter_empty_conv dest!: updateAnnotation_ops)
  have co: "filter ?P (addContainer (Containers (Spec pod)) (cfgContainers cfg)
              ''/spec/containers'') =
            addContainer (Containers (Spec pod)) (cfgContainers cfg) ''/spec/containers''"
    by (auto simp: filter_id_conv dest!: addContainer_ops)
  have "filter ?P (createPatchOps pod cfg annotations) =
          addContainer (Containers (Spec pod)) (cfgContainers cfg) ''/spec/containers''"
    unfolding createPatchOps_concat filter_append vm ev ic vo an co by simp
  then show ?thesis
    by (simp add: addContainer_closed split: list.splits)
qed

lemma emptyPod_two_containers:
  "createPatchOps emptyPod (exampleConfig [sidecarContainer, loggerContainer]) [] =
     [\<lparr>Op = ''add'', Path = ''/spec/containers'', Value = ContainerListV [sidecarContainer]\<rparr>,
      \<lparr>Op = ''add'', Path = ''/spec/containers/-'', Value = ContainerV loggerContainer\<rparr>]"
  by (simp add: createPatchOps_def emptyPod_def examplePod_def exampleConfig_def
        addVolumeMounts_def addEnvVars_def addContainer_def addVolume_def updateAnnotation_def)

text \<open>
  C1 as stated fails for a profile with two containers and a pod with none: the operation
  at \<^verbatim>\<open>/spec/containers\<close> carries the first container only, not the whole list, and a
  second operation appends the other one.
\<close>

theorem containers_value_counterexample:
  "Containers (Spec emptyPod) = [] \<and>
   cfgContainers (exampleConfig [sidecarContainer, loggerContainer]) =
     [sidecarContainer, loggerContainer] \<and>
   createPatchOps emptyPod (exampleConfig [sidecarContainer, loggerContainer]) [] =
     [\<lparr>Op = ''add'', Path = ''/spec/containers'', Value = ContainerListV [sidecarContainer]\<rparr>,
      \<lparr>Op = ''add'', Path = ''/spec/containers/-'', Value = ContainerV loggerContainer\<rparr>] \<and>
   ContainerListV [sidecarContainer] \<noteq> ContainerListV [sidecarContainer, loggerContainer]"
  by (simp add: emptyPod_two_containers)
     (simp add: emptyPod_def examplePod_def exampleConfig_def)

text \<open>
  C9, as the code has it. \<^verbatim>\<open>updateAnnotation\<close> emits one operation per entry. For the
  first entry, and for every entry before which no add was emitted: when the annotations
  of the pod are nil, have no entry for the key, or map the key to the empty string, the
  operation is an add at \<^verbatim>\<open>/metadata/annotations\<close> whose value is the one-entry mapping
  of key and value; otherwise it is a replace at \<^verbatim>\<open>/metadata/annotations/key\<close> whose
  value is the string. \<^verbatim>\<open>mutate\<close> passes a single entry, so this covers every call the
  program makes.
\<close>

theorem annotation_operation_before_first_add:
  assumes "added = pre @ (key, val) # post"
    and "\<forall>(k, v) \<in> set pre. \<not> noValueFor target k"
  shows "length (updateAnnotation target added) = length added \<and>
         updateAnnotation target added ! length pre =
           (if noValueFor target key
            then \<lparr>Op = ''add'', Path = ''/metadata/annotations'',
                  Value = StringMapV [(key, val)]\<rparr>
            else \<lparr>Op = ''replace'', Path = ''/metadata/annotations/'' @ key,
                  Value = StringV val\<rparr>)"
proof
  show "length (updateAnnotation target added) = length added"
    by (simp add: updateAnnotation_def updateAnnotationLoop_length)
  let ?done = "map (\<lambda>(k, v). \<lparr>Op = ''replace'', Path = ''/metadata/annotations/'' @ k,
                                Value = StringV v\<rparr>) pre"
  have start: "updateAnnotation target added =
                 updateAnnotationLoop target ?done ((key, val) # post)"
    using updateAnnotationLoop_replaces [OF assms(2), of "[]" "(key, val) # post"]
    by (simp add: updateAnnotation_def assms(1))
  show "updateAnnotation target added ! length pre =
           (if noValueFor target key
            then \<lparr>Op = ''add'', Path = ''/metadata/annotations'',
                  Value = StringMapV [(key, val)]\<rparr>
            else \<lparr>Op = ''replace'', Path = ''/metadata/annotations/'' @ key,
                  Value = StringV val\<rparr>)"
  proof (cases "noValueFor target key")
    case True
    then have "updateAnnotation target added =
                 updateAnnotationLoop (Some Map.empty)
                   (?done @ [\<lparr>Op = ''add'', Path = ''/metadata/annotations'',
                              Value = StringMapV [(key, val)]\<rparr>]) post"
      by (simp add: start noValueFor_def)
    then show ?thesis
      using True by (simp add: updateAnnotationLoop_prefix nth_append)
  next
    case False
    then have "updateAnnotation target added =
                 updateAnnotationLoop target
                   (?done @ [\<lparr>Op = ''replace'', Path = ''/metadata/annotations/'' @ key,
                              Value = StringV val\<rparr>]) post"
      by (simp add: start noValueFor_def)
    then show ?thesis
      using False by (simp add: updateAnnotationLoop_prefix nth_append)
  qed
qed

theorem annotation_operation_before_first_add_witness:
  "length (updateAnnotation (Some [''a'' \<mapsto> ''x'']) [(''a'', ''1''), (''b'', ''2'')]) = 2 \<and>
   updateAnnotation (Some [''a'' \<mapsto> ''x'']) [(''a'', ''1''), (''b'', ''2'')] ! 1 =
     \<lparr>Op = ''add'', Path = ''/metadata/annotations'', Value = StringMapV [(''b'', ''2'')]\<rparr>"
proof -
  have a: "[(''a'', ''1''), (''b'', ''2'')] = [(''a'', ''1'')] @ (''b'', ''2'') # []"
    by simp
  have b: "\<forall>(k, v) \<in> set [(''a'', ''1'')]. \<not> noValueFor (Some [''a'' \<mapsto> ''x'']) k"
    by (simp add: noValueFor_def index_def)
  have c: "noValueFor (Some [''a'' \<mapsto> ''x'']) ''b''"
    by (simp add: noValueFor_def index_def)
  show ?thesis
    using annotation_operation_before_first_add [OF a b] c by simp
qed

text \<open>
  C9 as stated fails for the pair of entries \<open>a\<close>, \<open>b\<close> in this order on a pod
  annotated with \<open>b = y\<close>: key \<open>a\<close> has no entry in a mapping that is not nil and
  gets an add; the loop then assigns an empty map to \<open>target\<close>, so key \<open>b\<close>,
  which the pod maps to a non-empty value, gets an add as well and not a replace.
\<close>

theorem annotation_operation_counterexample:
  "updateAnnotation (Some [''b'' \<mapsto> ''y'']) [(''a'', ''1''), (''b'', ''2'')] =
     [\<lparr>Op = ''add'', Path = ''/metadata/annotations'', Value = StringMapV [(''a'', ''1'')]\<rparr>,
      \<lparr>Op = ''add'', Path = ''/metadata/annotations'', Value = StringMapV [(''b'', ''2'')]\<rparr>] \<and>
   [''b'' \<mapsto> ''y''] ''a'' = None \<and>
   [''b'' \<mapsto> ''y''] ''b'' = Some ''y''"
  by (simp add: updateAnnotation_def index_def)

section \<open>The patch as the API server reads it\<close>

lemma applyPatch_append:
  "applyPatch (xs @ ys) anns =
     (case applyPatch xs anns of None \<Rightarrow> None | Some anns' \<Rightarrow> applyPatch ys anns')"
  by (induction xs arbitrary: anns) (auto split: option.splits)

lemma applyPatch_unchanged:
  "\<forall>op \<in> set xs. applyToAnnotations op anns = Some anns \<Longrightarrow> applyPatch xs anns = Some anns"
  by (induction xs) auto

lemma spec_path_unchanged:
  "applyToAnnotations \<lparr>Op = k, Path = ''/spec/'' @ rest, Value = v\<rparr> anns = Some anns"
proof -
  have "\<exists>t ts. splitTokens cur rest = t # ts" for cur
    by (induction rest arbitrary: cur) auto
  then have "\<exists>t ts. splitTokens [] rest = t # ts"
    by blast
  then show ?thesis
    by (auto simp: applyToAnnotations_def pointerTokens_def)
qed

lemma spec_steps_unchanged:
  "applyPatch (addVolumeMounts pod vms) anns = Some anns"
  "applyPatch (addEnvVars pod evs) anns = Some anns"
  "applyPatch (addContainer t1 a1 ''/spec/initContainers'') anns = Some anns"
  "applyPatch (addContainer t2 a2 ''/spec/containers'') anns = Some anns"
  "applyPatch (addVolume t3 a3 ''/spec/volumes'') anns = Some anns"
  using spec_path_unchanged [of _ _ _ anns]
  by (auto intro!: applyPatch_unchanged
      dest!: addVolumeMounts_ops addEnvVars_ops addContainer_ops addVolume_ops)

text \<open>
  The round trip of C4 on the path that adds the annotation. When the pod has no value
  for the status key, every operation before the last one is under \<^verbatim>\<open>/spec\<close>, the last
  one sets the annotations to the single entry \<open>status = injected\<close>, and the pod so
  annotated is admitted unchanged.
\<close>

lemma fresh_pod_round_trip:
  assumes "noValueFor (Annotations (Meta pod)) admissionWebhookAnnotationStatusKey"
  shows "applyPatch (createPatchOps pod cfg [(admissionWebhookAnnotationStatusKey, ''injected'')])
           (Annotations (Meta pod)) =
         Some (Some [admissionWebhookAnnotationStatusKey \<mapsto> ''injected''])"
proof -
  have "updateAnnotation (Annotations (Meta pod))
          [(admissionWebhookAnnotationStatusKey, ''injected'')] =
        [\<lparr>Op = ''add'', Path = ''/metadata/annotations'',
          Value = StringMapV [(admissionWebhookAnnotationStatusKey, ''injected'')]\<rparr>]"
    using assms by (simp add: updateAnnotation_def noValueFor_def)
  moreover have "applyPatch [\<lparr>Op = ''add'', Path = ''/metadata/annotations'',
          Value = StringMapV [(admissionWebhookAnnotationStatusKey, ''injected'')]\<rparr>]
          (Annotations (Meta pod)) =
        Some (Some [admissionWebhookAnnotationStatusKey \<mapsto> ''injected''])"
    by (simp add: applyToAnnotations_def pointerTokens_def)
  ultimately show ?thesis
    by (simp add: createPatchOps_concat applyPatch_append spec_steps_unchanged)
qed

lemma injected_is_lower: "ToLower L ''injected'' = ''injected''"
proof -
  have "map lowerByte ''injected'' = ''injected''"
    by code_simp
  then show ?thesis
    by (rule ToLower_fold)
qed

lemma patched_pod_allows:
  "mutatePod L sidecarConfigs
     (pod\<lparr>Meta := (Meta pod)\<lparr>Annotations :=
        Some [admissionWebhookAnnotationStatusKey \<mapsto> ''injected'']\<rparr>\<rparr>) = Allow"
proof -
  let ?pod' = "pod\<lparr>Meta := (Meta pod)\<lparr>Annotations :=
        Some [admissionWebhookAnnotationStatusKey \<mapsto> ''injected'']\<rparr>\<rparr>"
  have "mutationRequired L (ignoredNamespaces L) (Meta ?pod') = (False, [])"
    by (rule mutationRequired_injected
          [where m = "[admissionWebhookAnnotationStatusKey \<mapsto> ''injected'']"
             and status = "''injected''"])
       (simp_all add: injected_is_lower)
  then show ?thesis
    by (rule mutatePod_not_required)
qed

lemma stalePod_required:
  "mutationRequired (exampleLibrary stalePod) (ignoredNamespaces (exampleLibrary stalePod))
     (Meta stalePod) = (True, ''web'')"
proof -
  have "map lowerByte ''pending'' = ''pending''"
    by code_simp
  then have "ToLower (exampleLibrary stalePod) ''pending'' \<noteq> ''injected''"
    by (simp add: ToLower_def isASCII_def)
  then show ?thesis
    by (simp add: mutationRequired_def stalePod_def examplePod_def ignoredNamespaces_def
        exampleLibrary_def index_def keys_differ keys_differ [symmetric])
qed

lemma stalePod_ops:
  "createPatchOps stalePod (exampleConfig [sidecarContainer])
     [(admissionWebhookAnnotationStatusKey, ''injected'')] =
   [\<lparr>Op = ''add'', Path = ''/spec/containers/-'', Value = ContainerV sidecarContainer\<rparr>,
    \<lparr>Op = ''replace'', Path = ''/metadata/annotations/simple-sidecar.cemtml.ai/status'',
     Value = StringV ''injected''\<rparr>]"
  by (simp add: createPatchOps_def stalePod_def examplePod_def exampleConfig_def
        addVolumeMounts_def addEnvVars_def addContainer_def addVolume_def updateAnnotation_def
        index_def admissionWebhookAnnotationStatusKey_def)

text \<open>
  C4 at a pod that carries the inject request and a status other than \<open>injected\<close>.
  The policy requires a mutation and \<^verbatim>\<open>mutate\<close> returns a patch. Its annotation
  operation is a replace whose path appends the status key as it is; the key holds a
  \<^verbatim>\<open>/\<close>, which is not written \<^verbatim>\<open>~1\<close>, so the pointer has four tokens and names the
  member \<open>status\<close> of a member \<open>simple-sidecar.cemtml.ai\<close> that no annotations object
  has. The patch is rejected: no pod with the status \<open>injected\<close> results from it.
\<close>

theorem stale_status_patch_rejected:
  "mutationRequired (exampleLibrary stalePod) (ignoredNamespaces (exampleLibrary stalePod))
     (Meta stalePod) = (True, ''web'') \<and>
   Patch (mutatePod (exampleLibrary stalePod) [''web'' \<mapsto> exampleConfig [sidecarContainer]]
            stalePod) \<noteq> None \<and>
   createPatchOps stalePod (exampleConfig [sidecarContainer])
     [(admissionWebhookAnnotationStatusKey, ''injected'')] =
   [\<lparr>Op = ''add'', Path = ''/spec/containers/-'', Value = ContainerV sidecarContainer\<rparr>,
    \<lparr>Op = ''replace'', Path = ''/metadata/annotations/simple-sidecar.cemtml.ai/status'',
     Value = StringV ''injected''\<rparr>] \<and>
   pointerTokens ''/metadata/annotations/simple-sidecar.cemtml.ai/status'' =
     Some [''metadata'', ''annotations'', ''simple-sidecar.cemtml.ai'', ''status''] \<and>
   applyPatch
     (createPatchOps stalePod (exampleConfig [sidecarContainer])
        [(admissionWebhookAnnotationStatusKey, ''injected'')])
     (Annotations (Meta stalePod)) = None"
proof -
  have tokens: "pointerTokens ''/metadata/annotations/simple-sidecar.cemtml.ai/status'' =
     Some [''metadata'', ''annotations'', ''simple-sidecar.cemtml.ai'', ''status'']"
    by (simp add: pointerTokens_def)
  have first: "pointerTokens ''/spec/containers/-'' = Some [''spec'', ''containers'', ''-'']"
    by (simp add: pointerTokens_def)
  have patch: "Patch (mutatePod (exampleLibrary stalePod)
                  [''web'' \<mapsto> exampleConfig [sidecarContainer]] stalePod) \<noteq> None"
    by (simp add: mutatePod_def stalePod_required createPatch_def)
       (simp add: exampleLibrary_def)
  have rejected: "applyPatch
     [\<lparr>Op = ''add'', Path = ''/spec/containers/-'', Value = ContainerV sidecarContainer\<rparr>,
      \<lparr>Op = ''replace'', Path = ''/metadata/annotations/simple-sidecar.cemtml.ai/status'',
       Value = StringV ''injected''\<rparr>] (Annotations (Meta stalePod)) = None"
    by (simp add: applyToAnnotations_def tokens first)
  show ?thesis
    using stalePod_required patch tokens rejected by (simp only: stalePod_ops) simp
qed

end
